theory Spec2Isabelle
  imports Complex_Main "HOL-Library.Char_ord" "HOL-Library.List_Lexorder"
begin

section \<open>Values read from the corpus\<close>

text \<open>
  The loader of \<^verbatim>\<open>dense_retrieval_faiss.py\<close> reads one JSON value per line with
  \<^verbatim>\<open>json.loads\<close>. The values it can get are Python's \<^verbatim>\<open>None\<close>, booleans, integers,
  floats, strings, lists and dictionaries. A dictionary is an association list in insertion
  order (the keys of a parsed dictionary are distinct); a string is a list of characters, one
  \<^typ>\<open>char\<close> standing for one character of the Python string.
\<close>

datatype json =
    JNull
  | JBool bool
  | JInt int
  | JFloat real
  | JStr string
  | JArr "json list"
  | JObj "(string \<times> json) list"

text \<open>
  The exceptions that the loader can meet while it handles one file. \<^verbatim>\<open>json.loads\<close>
  raises \<^verbatim>\<open>JSONDecodeError\<close> on a line that is not JSON; on some lines it raises another
  exception instead (\<^verbatim>\<open>RecursionError\<close> on very deep nesting, a plain \<^verbatim>\<open>ValueError\<close> on
  an integer literal beyond the interpreter's digit limit).
\<close>

datatype py_error =
    JSONDecodeError
  | RecursionError
  | ValueError
  | KeyError
  | AttributeError
  | TypeError
  | OSError

text \<open>An article as the loader appends it: \<^verbatim>\<open>{"id": ..., "title": ..., "text": ...}\<close>.\<close>

record article =
  art_id :: json
  art_title :: json
  art_text :: string

section \<open>Python primitives used by the loader\<close>

text \<open>\<^verbatim>\<open>doc.get(key, default)\<close>: only a dictionary has the method.\<close>

fun dict_get :: "json \<Rightarrow> string \<Rightarrow> json \<Rightarrow> py_error + json" where
  "dict_get (JObj kvs) k dflt = Inr (case map_of kvs k of None \<Rightarrow> dflt | Some v \<Rightarrow> v)"
| "dict_get _ k dflt = Inl AttributeError"

text \<open>\<^verbatim>\<open>doc[key]\<close> with a string key: a missing key raises \<^verbatim>\<open>KeyError\<close>.\<close>

fun getitem :: "json \<Rightarrow> string \<Rightarrow> py_error + json" where
  "getitem (JObj kvs) k = (case map_of kvs k of None \<Rightarrow> Inl KeyError | Some v \<Rightarrow> Inr v)"
| "getitem _ k = Inl TypeError"

text \<open>
  \<^verbatim>\<open>for item in text_data\<close>: a list yields its elements, a string its characters (each a
  string of length one), a dictionary its keys; anything else is not iterable.
\<close>

fun py_iter :: "json \<Rightarrow> py_error + json list" where
  "py_iter (JArr xs) = Inr xs"
| "py_iter (JStr s) = Inr (map (\<lambda>c. JStr [c]) s)"
| "py_iter (JObj kvs) = Inr (map (\<lambda>kv. JStr (fst kv)) kvs)"
| "py_iter _ = Inl TypeError"

text \<open>\<^verbatim>\<open>[s for s in item if isinstance(s, str)]\<close>\<close>

fun str_elems :: "json list \<Rightarrow> string list" where
  "str_elems [] = []"
| "str_elems (JStr s # xs) = s # str_elems xs"
| "str_elems (_ # xs) = str_elems xs"

text \<open>
  The body of the loop over \<^verbatim>\<open>text_data\<close> (lines 79-83): a list item extends
  \<^verbatim>\<open>sentences\<close> by its string elements, a string item is appended, any other item is
  passed over.
\<close>

fun collect_item :: "string list \<Rightarrow> json \<Rightarrow> string list" where
  "collect_item sentences (JArr item) = sentences @ str_elems item"
| "collect_item sentences (JStr item) = sentences @ [item]"
| "collect_item sentences _ = sentences"

text \<open>\<^verbatim>\<open>sep.join(parts)\<close>\<close>

fun join :: "string \<Rightarrow> string list \<Rightarrow> string" where
  "join sep [] = []"
| "join sep [s] = s"
| "join sep (s # t # ss) = s @ sep @ join sep (t # ss)"

text \<open>
  \<^verbatim>\<open>line.strip()\<close> removes leading and trailing whitespace: the characters for which
  \<^verbatim>\<open>str.isspace\<close> holds, here those below code point 256.
\<close>

definition is_space :: "char \<Rightarrow> bool" where
  "is_space c = ((of_char c :: nat) \<in> {9, 10, 11, 12, 13, 28, 29, 30, 31, 32, 133, 160})"

definition strip :: "string \<Rightarrow> string" where
  "strip s = rev (dropWhile is_space (rev (dropWhile is_space s)))"

text \<open>\<^verbatim>\<open>s.endswith(suf)\<close>\<close>

definition endswith :: "string \<Rightarrow> string \<Rightarrow> bool" where
  "endswith s suf = (length suf \<le> length s \<and> drop (length s - length suf) s = suf)"

text \<open>\<^verbatim>\<open>os.path.join(a, b)\<close> on a POSIX system.\<close>

definition path_join :: "string \<Rightarrow> string \<Rightarrow> string" where
  "path_join a b =
     (if b \<noteq> [] \<and> hd b = CHR ''/'' then b
      else if a = [] \<or> last a = CHR ''/'' then a @ b
      else a @ ''/'' @ b)"

section \<open>The file system and the parser as the loader sees them\<close>

text \<open>
  What the loader asks of the operating system: the tests \<^verbatim>\<open>os.path.exists\<close>,
  \<^verbatim>\<open>os.path.isfile\<close> and \<^verbatim>\<open>os.path.isdir\<close>, the enumeration \<^verbatim>\<open>os.walk\<close> (triples of
  a directory, its subdirectories and its files, in the order the system lists them), and
  the two ways of opening a text stream. Reading a stream gives the lines delivered and
  the exception, if any, that ends the reading (a failure to open delivers no line).
\<close>

record filesystem =
  fs_exists :: "string \<Rightarrow> bool"
  fs_isfile :: "string \<Rightarrow> bool"
  fs_isdir :: "string \<Rightarrow> bool"
  fs_walk :: "string \<Rightarrow> (string \<times> string list \<times> string list) list"
  fs_open :: "string \<Rightarrow> string list \<times> py_error option"
  fs_bz2_open :: "string \<Rightarrow> string list \<times> py_error option"

text \<open>
  \<^verbatim>\<open>json.loads\<close> is a parameter of the model: on a line it either returns the parsed
  value or raises an exception.
\<close>

type_synonym json_loads = "string \<Rightarrow> py_error + json"

section \<open>\<^verbatim>\<open>load_wikipedia_articles\<close>\<close>

definition decompressed_file_name :: string where
  "decompressed_file_name = ''enwiki-20171001-pages-meta-current-withlinks-processed''"

text \<open>
  Lines 77-91, for a parsed line \<open>doc\<close>: the statements in the order the source
  evaluates them. \<^verbatim>\<open>doc.get('id', doc['title'])\<close> evaluates \<^verbatim>\<open>doc['title']\<close> first,
  as an argument, whether or not the key \<^verbatim>\<open>id\<close> is there.
\<close>

definition parse_record :: "json \<Rightarrow> py_error + article" where
  "parse_record doc =
     (case dict_get doc ''text'' (JArr []) of
        Inl e \<Rightarrow> Inl e
      | Inr text_data \<Rightarrow>
          (case py_iter text_data of
             Inl e \<Rightarrow> Inl e
           | Inr items \<Rightarrow>
               (let sentences = foldl collect_item [] items;
                    full_text = join '' '' sentences
                in case getitem doc ''title'' of
                     Inl e \<Rightarrow> Inl e
                   | Inr t \<Rightarrow>
                       (case dict_get doc ''id'' t of
                          Inl e \<Rightarrow> Inl e
                        | Inr i \<Rightarrow>
                            Inr \<lparr>art_id = i, art_title = t, art_text = full_text\<rparr>))))"

text \<open>
  The loop over the lines of one file (lines 70-94). A blank line is passed over; a line
  on which \<^verbatim>\<open>json.loads\<close> raises \<^verbatim>\<open>json.JSONDecodeError\<close> is passed over by the inner
  handler, which catches that exception only; any other exception, of the parser or of
  the statements after it, leaves the loop, with the articles appended so far kept (the
  list is mutated in place). The result is the list of articles and the exception that
  left the loop, if any.
\<close>

fun read_lines :: "json_loads \<Rightarrow> article list \<Rightarrow> string list \<Rightarrow> article list \<times> py_error option" where
  "read_lines loads articles [] = (articles, None)"
| "read_lines loads articles (l # ls) =
     (let line = strip l in
      if line = [] then read_lines loads articles ls
      else case loads line of
             Inl e \<Rightarrow>
               (if e = JSONDecodeError then read_lines loads articles ls
                else (articles, Some e))
           | Inr doc \<Rightarrow>
               (case parse_record doc of
                  Inl e \<Rightarrow> (articles, Some e)
                | Inr a \<Rightarrow> read_lines loads (articles @ [a]) ls))"

text \<open>
  One turn of the loop over the files (lines 64-97): the stream is opened according to the
  suffix, its lines are processed, and whatever exception occurs (in a line, or in the
  reading itself) is caught by \<^verbatim>\<open>except Exception\<close>, reported, and the loop goes on with
  the next file.
\<close>

definition process_file :: "filesystem \<Rightarrow> json_loads \<Rightarrow> article list \<Rightarrow> string \<Rightarrow> article list" where
  "process_file fs loads articles file_path =
     (let is_bz2 = endswith file_path ''.bz2'';
          f = (if is_bz2 then fs_bz2_open fs file_path else fs_open fs file_path)
      in fst (read_lines loads articles (fst f)))"

text \<open>Lines 34-57: the files to process, sorted.\<close>

definition files_to_process :: "filesystem \<Rightarrow> string \<Rightarrow> string list" where
  "files_to_process fs data_path =
     sort
       (if fs_isfile fs data_path then [data_path]
        else if fs_isdir fs data_path then
          (let potential_single_file = path_join data_path decompressed_file_name in
           if fs_isfile fs potential_single_file then [potential_single_file]
           else concat (map (\<lambda>(root, dirs, files).
                          map (path_join root) (filter (\<lambda>file. endswith file ''.bz2'') files))
                        (fs_walk fs data_path)))
        else [])"

definition load_wikipedia_articles :: "filesystem \<Rightarrow> json_loads \<Rightarrow> string \<Rightarrow> article list" where
  "load_wikipedia_articles fs loads data_path =
     (let files = files_to_process fs data_path in
      if files = [] then []
      else foldl (process_file fs loads) [] files)"

section \<open>Arrays, the embedding model and the flat index\<close>

text \<open>
  A two-dimensional array is the list of its rows; its second dimension (\<^verbatim>\<open>shape[1]\<close>) is
  read off the first row. This covers the arrays that have a row: the encoder of the script
  returns one row per text and every slice of the loop holds a text, so every chunk output
  has one. An array without rows, whose width numpy keeps in its shape, has no width to
  read here and is given 0; no statement below rests on such an array. Components are real
  numbers: the inputs of the scenarios are small integers, which single-precision
  arithmetic handles exactly.
\<close>

type_synonym vector = "real list"
type_synonym matrix = "real list list"

definition ncols :: "matrix \<Rightarrow> nat" where
  "ncols m = (case m of [] \<Rightarrow> 0 | r # _ \<Rightarrow> length r)"

text \<open>
  \<^verbatim>\<open>model.encode(chunk, convert_to_numpy=True)\<close> on a list of texts is a parameter of the
  model, of this type; so is \<^verbatim>\<open>model.encode(query_text)\<close> on one text.
\<close>

type_synonym encoder = "string list \<Rightarrow> matrix"

text \<open>
  How the script stops before its end: the four calls of \<^verbatim>\<open>exit\<close> (lines 112, 122, 147
  and 157) and the exceptions that nothing catches. \<^verbatim>\<open>ValueError_vstack\<close> is the
  \<^verbatim>\<open>ValueError\<close> that \<^verbatim>\<open>np.vstack\<close> raises for arrays whose second dimensions differ, or
  for no array at all; \<^verbatim>\<open>ValueError_range\<close> the one of \<^verbatim>\<open>range\<close> with step zero;
  \<^verbatim>\<open>IndexError_ids\<close> the one of an index outside a list.
\<close>

datatype stop =
    Exit_data_dir_not_found
  | Exit_no_articles
  | Exit_no_embeddings
  | Exit_no_index
  | ValueError_range
  | ValueError_vstack
  | IndexError_ids

text \<open>\<^verbatim>\<open>range(0, n, step)\<close> for a positive step: the multiples of the step below \<open>n\<close>.\<close>

definition py_range :: "nat \<Rightarrow> nat \<Rightarrow> nat list" where
  "py_range n step = map (\<lambda>j. j * step) [0..<(n + step - 1) div step]"

text \<open>
  Lines 135-140: one call of the encoder per slice
  \<^verbatim>\<open>corpus_texts[i:i + chunk_size]\<close>, the outputs collected in order.
\<close>

definition embed_chunks :: "encoder \<Rightarrow> nat \<Rightarrow> string list \<Rightarrow> matrix list" where
  "embed_chunks encode chunk_size corpus_texts =
     map (\<lambda>i. encode (take chunk_size (drop i corpus_texts)))
       (py_range (length corpus_texts) chunk_size)"

text \<open>\<^verbatim>\<open>np.vstack\<close>: the rows of the arrays in order, when their second dimensions agree.\<close>

definition vstack :: "matrix list \<Rightarrow> stop + matrix" where
  "vstack ms =
     (case ms of
        [] \<Rightarrow> Inl ValueError_vstack
      | m # rest \<Rightarrow>
          if list_all (\<lambda>m'. ncols m' = ncols m) rest then Inr (concat ms)
          else Inl ValueError_vstack)"

text \<open>
  Lines 134-147, with \<^verbatim>\<open>chunk_size\<close> (1000 in the script) as an argument: the loop, then
  the guard on \<^verbatim>\<open>all_embeddings\<close>, which either stacks the outputs or leaves the script.
\<close>

definition generate_embeddings :: "encoder \<Rightarrow> nat \<Rightarrow> string list \<Rightarrow> stop + matrix" where
  "generate_embeddings encode chunk_size corpus_texts =
     (if chunk_size = 0 then Inl ValueError_range
      else
        (let all_embeddings = embed_chunks encode chunk_size corpus_texts in
         if all_embeddings \<noteq> [] then vstack all_embeddings
         else Inl Exit_no_embeddings))"

text \<open>
  Modelled from the spec: \<^verbatim>\<open>faiss.IndexFlatL2\<close> is a library class, absent from the
  repository's source. Following section 4.3 of the specification, the index holds its
  dimension and the stored vectors in insertion order; \<^verbatim>\<open>add\<close> appends the rows of a
  matrix; \<^verbatim>\<open>ntotal\<close> counts the stored vectors.
\<close>

record flat_index =
  idx_d :: nat
  idx_xb :: matrix

definition IndexFlatL2 :: "nat \<Rightarrow> flat_index" where
  "IndexFlatL2 d = \<lparr>idx_d = d, idx_xb = []\<rparr>"

definition index_add :: "flat_index \<Rightarrow> matrix \<Rightarrow> flat_index" where
  "index_add index m = index\<lparr>idx_xb := idx_xb index @ m\<rparr>"

definition ntotal :: "flat_index \<Rightarrow> nat" where
  "ntotal index = length (idx_xb index)"

text \<open>
  Modelled from the spec: the search of the flat index (section 4.3). For one query
  vector, the squared Euclidean distance to every stored vector; the \<open>k\<close> smallest with
  their positions, ascending, a tie going to the lower position (the sort is stable); when
  fewer than \<open>k\<close> vectors are stored, the remaining slots carry the label \<open>-1\<close>, which is
  how the library signals "no result", with the largest single-precision number as their
  distance.
\<close>

definition sq_l2 :: "vector \<Rightarrow> vector \<Rightarrow> real" where
  "sq_l2 x y = sum_list (map (\<lambda>(a, b). (a - b) ^ 2) (zip x y))"

definition no_result :: int where
  "no_result = - 1"

definition no_result_distance :: real where
  "no_result_distance = (2 ^ 24 - 1) * 2 ^ 104"

definition search_one :: "flat_index \<Rightarrow> vector \<Rightarrow> nat \<Rightarrow> (real \<times> int) list" where
  "search_one index q k =
     (let scored = map (\<lambda>i. (sq_l2 q (idx_xb index ! i), int i)) [0..<ntotal index];
          best = take k (sort_key fst scored)
      in best @ replicate (k - length best) (no_result_distance, no_result))"

definition index_search :: "flat_index \<Rightarrow> matrix \<Rightarrow> nat \<Rightarrow> real list list \<times> int list list" where
  "index_search index queries k =
     (map (\<lambda>q. map fst (search_one index q k)) queries,
      map (\<lambda>q. map snd (search_one index q k)) queries)"

text \<open>Lines 150-157: the index is built from a matrix with at least one row.\<close>

definition build_index :: "matrix \<Rightarrow> stop + flat_index" where
  "build_index corpus_embeddings =
     (if length corpus_embeddings > 0 then
        (let embedding_dim = ncols corpus_embeddings;
             index = IndexFlatL2 embedding_dim
         in Inr (index_add index corpus_embeddings))
      else Inl Exit_no_index)"

section \<open>The build, the saved artifacts and the retrieval test\<close>

text \<open>
  Lines 117-157, from the loaded articles to the index, the id list and the matrix. An
  empty list of articles leaves the script before any embedding.
\<close>

definition build :: "encoder \<Rightarrow> nat \<Rightarrow> article list \<Rightarrow> stop + flat_index \<times> json list \<times> matrix" where
  "build encode chunk_size wikipedia_articles =
     (if wikipedia_articles = [] then Inl Exit_no_articles
      else
        (let corpus_texts = map art_text wikipedia_articles;
             corpus_ids = map art_id wikipedia_articles
         in case generate_embeddings encode chunk_size corpus_texts of
              Inl e \<Rightarrow> Inl e
            | Inr corpus_embeddings \<Rightarrow>
                (case build_index corpus_embeddings of
                   Inl e \<Rightarrow> Inl e
                 | Inr index \<Rightarrow> Inr (index, corpus_ids, corpus_embeddings))))"

text \<open>
  Lines 160-173: three files in one directory. What a file holds is the value written to
  it (\<^verbatim>\<open>faiss.write_index\<close>, \<^verbatim>\<open>json.dump\<close>, \<^verbatim>\<open>np.save\<close>).
\<close>

datatype artifact = Index_file flat_index | Json_file "json list" | Npy_file matrix

definition faiss_index_path :: string where
  "faiss_index_path = ''dense_retrieval_artifacts/wikipedia_faiss_index.bin''"

definition corpus_ids_path :: string where
  "corpus_ids_path = ''dense_retrieval_artifacts/wikipedia_corpus_ids.json''"

definition corpus_embeddings_path :: string where
  "corpus_embeddings_path = ''dense_retrieval_artifacts/wikipedia_corpus_embeddings.npy''"

definition save_artifacts :: "flat_index \<Rightarrow> json list \<Rightarrow> matrix \<Rightarrow> (string \<rightharpoonup> artifact)" where
  "save_artifacts index corpus_ids corpus_embeddings =
     [faiss_index_path \<mapsto> Index_file index,
      corpus_ids_path \<mapsto> Json_file corpus_ids,
      corpus_embeddings_path \<mapsto> Npy_file corpus_embeddings]"

text \<open>
  \<^verbatim>\<open>corpus_ids[idx]\<close>: Python counts a negative index from the end of the list, and
  raises \<^verbatim>\<open>IndexError\<close> outside \<open>-len \<le> idx < len\<close>.
\<close>

definition py_index :: "'a list \<Rightarrow> int \<Rightarrow> stop + 'a" where
  "py_index xs i =
     (if 0 \<le> i \<and> i < int (length xs) then Inr (xs ! nat i)
      else if - int (length xs) \<le> i \<and> i < 0 then Inr (xs ! nat (int (length xs) + i))
      else Inl IndexError_ids)"

text \<open>
  Lines 185-192: what the loop over \<^verbatim>\<open>enumerate(indices[0])\<close> prints, one line per slot:
  the rank, the article id and the distance, or the warning. The title shown beside the
  id (line 188) is looked up for display only and is left out of the printed line here.
\<close>

datatype printed = Rank nat json real | Warning_out_of_bounds int

fun print_ranks :: "json list \<Rightarrow> real list \<Rightarrow> (nat \<times> int) list \<Rightarrow> stop + printed list" where
  "print_ranks corpus_ids distances0 [] = Inr []"
| "print_ranks corpus_ids distances0 ((i, idx) # rest) =
     (if idx < int (length corpus_ids) then
        (case py_index corpus_ids idx of
           Inl e \<Rightarrow> Inl e
         | Inr article_id \<Rightarrow>
             (let distance = distances0 ! i in
              case print_ranks corpus_ids distances0 rest of
                Inl e \<Rightarrow> Inl e
              | Inr out \<Rightarrow> Inr (Rank (i + 1) article_id distance # out)))
      else
        (case print_ranks corpus_ids distances0 rest of
           Inl e \<Rightarrow> Inl e
         | Inr out \<Rightarrow> Inr (Warning_out_of_bounds idx # out)))"

text \<open>
  Lines 178-192, with the query vector and \<^verbatim>\<open>k_neighbors\<close> (5 in the script) as
  arguments: the query is searched as a batch of one, and the first row of the result is
  printed.
\<close>

definition test_retrieval :: "flat_index \<Rightarrow> json list \<Rightarrow> vector \<Rightarrow> nat \<Rightarrow> stop + printed list" where
  "test_retrieval index corpus_ids query_embedding k_neighbors =
     (let query = [query_embedding];
          (distances, indices) = index_search index query k_neighbors
      in print_ranks corpus_ids (distances ! 0) (zip [0..<length (indices ! 0)] (indices ! 0)))"

text \<open>The pairs of id and distance that the printed ranks show, in order.\<close>

fun shown :: "printed list \<Rightarrow> (json \<times> real) list" where
  "shown [] = []"
| "shown (Rank r article_id distance # out) = (article_id, distance) # shown out"
| "shown (Warning_out_of_bounds idx # out) = shown out"

text \<open>
  The script (lines 102-194), with the file system, the parser, the encoder of the corpus
  and the vector of the query text as arguments: it either stops early or ends with the
  saved files and the printed ranks.
\<close>

definition WIKI_DATA_PATH_FOR_LOADING :: string where
  "WIKI_DATA_PATH_FOR_LOADING = ''data/enwiki-20171001-pages-meta-current-withlinks-processed/''"

definition main :: "filesystem \<Rightarrow> json_loads \<Rightarrow> encoder \<Rightarrow> vector \<Rightarrow> stop + (string \<rightharpoonup> artifact) \<times> printed list" where
  "main fs loads encode query_embedding =
     (if \<not> fs_exists fs WIKI_DATA_PATH_FOR_LOADING then Inl Exit_data_dir_not_found
      else
        (let wikipedia_articles = load_wikipedia_articles fs loads WIKI_DATA_PATH_FOR_LOADING in
         case build encode 1000 wikipedia_articles of
           Inl e \<Rightarrow> Inl e
         | Inr (index, corpus_ids, corpus_embeddings) \<Rightarrow>
             (let files = save_artifacts index corpus_ids corpus_embeddings in
              case test_retrieval index corpus_ids query_embedding 5 of
                Inl e \<Rightarrow> Inl e
              | Inr out \<Rightarrow> Inr (files, out))))"

section \<open>The specification's words, as definitions\<close>

text \<open>
  The specification describes the text of a document as the record's \<^verbatim>\<open>text\<close> field
  flattened one level, string elements kept and anything else discarded. Said of the
  elements one by one: a string contributes itself, a list contributes its string
  elements, anything else contributes nothing.
\<close>

fun strings_in :: "json \<Rightarrow> string list" where
  "strings_in (JStr s) = [s]"
| "strings_in (JArr inner) = concat (map (\<lambda>x. case x of JStr s \<Rightarrow> [s] | _ \<Rightarrow> []) inner)"
| "strings_in _ = []"

definition flatten_one_level :: "json list \<Rightarrow> string list" where
  "flatten_one_level items = concat (map strings_in items)"

text \<open>
  The lines that the specification counts: non-blank, syntactically valid, and bearing a
  title.
\<close>

definition title_bearing_line :: "json_loads \<Rightarrow> string \<Rightarrow> bool" where
  "title_bearing_line loads l =
     (strip l \<noteq> [] \<and>
      (case loads (strip l) of
         Inr (JObj kvs) \<Rightarrow> map_of kvs ''title'' \<noteq> None
       | _ \<Rightarrow> False))"

section \<open>Sample inputs\<close>

text \<open>A parser for the few lines of the sample files: what \<^verbatim>\<open>json.loads\<close> gives on them.\<close>

definition sample_loads :: json_loads where
  \<open>sample_loads s =
     (if s = ''{"text": ["x"]}'' then Inr (JObj [(''text'', JArr [JStr ''x''])])
      else if s = ''{"title": "A"}'' then Inr (JObj [(''title'', JStr ''A'')])
      else if s = ''{"title": "B"}'' then Inr (JObj [(''title'', JStr ''B'')])
      else Inl JSONDecodeError)\<close>

text \<open>A file system that holds one plain file.\<close>

definition one_file_fs :: "string \<Rightarrow> string list \<Rightarrow> filesystem" where
  "one_file_fs path lines =
     \<lparr>fs_exists = (\<lambda>p. p = path),
      fs_isfile = (\<lambda>p. p = path),
      fs_isdir = (\<lambda>p. False),
      fs_walk = (\<lambda>p. []),
      fs_open = (\<lambda>p. if p = path then (lines, None) else ([], Some OSError)),
      fs_bz2_open = (\<lambda>p. ([], Some OSError))\<rparr>"

text \<open>
  A directory \<^verbatim>\<open>data\<close> with two subdirectories, each holding one compressed shard;
  the system lists \<^verbatim>\<open>data/b\<close> before \<^verbatim>\<open>data/a\<close>.
\<close>

definition two_shard_fs :: "string list \<Rightarrow> string list \<Rightarrow> filesystem" where
  "two_shard_fs lines_a lines_b =
     \<lparr>fs_exists = (\<lambda>p. p \<in> {''data'', ''data/a'', ''data/b'', ''data/a/s.bz2'', ''data/b/s.bz2''}),
      fs_isfile = (\<lambda>p. p \<in> {''data/a/s.bz2'', ''data/b/s.bz2''}),
      fs_isdir = (\<lambda>p. p \<in> {''data'', ''data/a'', ''data/b''}),
      fs_walk = (\<lambda>p. if p = ''data''
                      then [(''data'', [''b'', ''a''], []),
                            (''data/b'', [], [''s.bz2'', ''notes.txt'']),
                            (''data/a'', [], [''s.bz2''])]
                      else []),
      fs_open = (\<lambda>p. ([], Some OSError)),
      fs_bz2_open = (\<lambda>p. if p = ''data/a/s.bz2'' then (lines_a, None)
                          else if p = ''data/b/s.bz2'' then (lines_b, None)
                          else ([], Some OSError))\<rparr>"

text \<open>The data directory of the script, present and holding no data file.\<close>

definition empty_dir_fs :: filesystem where
  "empty_dir_fs =
     \<lparr>fs_exists = (\<lambda>p. p = WIKI_DATA_PATH_FOR_LOADING),
      fs_isfile = (\<lambda>p. False),
      fs_isdir = (\<lambda>p. p = WIKI_DATA_PATH_FOR_LOADING),
      fs_walk = (\<lambda>p. if p = WIKI_DATA_PATH_FOR_LOADING
                      then [(WIKI_DATA_PATH_FOR_LOADING, [], [])]
                      else []),
      fs_open = (\<lambda>p. ([], Some OSError)),
      fs_bz2_open = (\<lambda>p. ([], Some OSError))\<rparr>"

text \<open>Three articles, and an embedding of their texts in the plane.\<close>

definition sample_embed :: "string \<Rightarrow> vector" where
  "sample_embed t = (if t = ''ta'' then [0, 0] else if t = ''tb'' then [1, 0] else [5, 5])"

definition sample_articles :: "article list" where
  "sample_articles =
     [\<lparr>art_id = JStr ''a'', art_title = JStr ''A'', art_text = ''ta''\<rparr>,
      \<lparr>art_id = JStr ''b'', art_title = JStr ''B'', art_text = ''tb''\<rparr>,
      \<lparr>art_id = JStr ''c'', art_title = JStr ''C'', art_text = ''tc''\<rparr>]"

text \<open>
  An encoder whose rows have width 4 for the chunk that starts with the first sample text
  and width 5 for any other chunk.
\<close>

definition ragged_encoder :: encoder where
  "ragged_encoder chunk =
     map (\<lambda>t. replicate (if chunk \<noteq> [] \<and> hd chunk = ''ta'' then 4 else 5) 0) chunk"

section \<open>The loop over the text field\<close>

lemma str_elems_concat:
  "str_elems inner = concat (map (\<lambda>x. case x of JStr s \<Rightarrow> [s] | _ \<Rightarrow> []) inner)"
  by (induction inner rule: str_elems.induct) simp_all

lemma collect_item_strings_in: "collect_item acc item = acc @ strings_in item"
  by (cases item) (simp_all add: str_elems_concat)

lemma foldl_collect_item: "foldl collect_item acc items = acc @ flatten_one_level items"
  by (induction items arbitrary: acc) (simp_all add: flatten_one_level_def collect_item_strings_in)

lemma foldl_collect_chars:
  "foldl collect_item acc (map (\<lambda>c. JStr [c]) s) = acc @ map (\<lambda>c. [c]) s"
  by (induction s arbitrary: acc) simp_all

section \<open>Slices and chunks\<close>

lemma concat_slices:
  "concat (map (\<lambda>j. take cs (drop (j * cs) xs)) [0..<m]) = take (m * cs) xs"
proof (induction m)
  case 0
  show ?case by simp
next
  case (Suc m)
  have "take (m * cs) xs @ take cs (drop (m * cs) xs) = take (m * cs + cs) xs"
    by (simp add: take_add)
  with Suc show ?case by (simp add: add.commute)
qed

lemma range_covers:
  fixes n cs :: nat
  assumes "0 < cs"
  shows "n \<le> ((n + cs - 1) div cs) * cs"
proof -
  have "(n + cs - 1) div cs * cs + (n + cs - 1) mod cs = n + cs - 1"
    by simp
  moreover have "(n + cs - 1) mod cs < cs"
    using assms by simp
  ultimately show ?thesis by linarith
qed

lemma range_below:
  fixes n cs j :: nat
  assumes "0 < cs" and "j < (n + cs - 1) div cs"
  shows "j * cs < n"
proof -
  have "Suc j * cs \<le> (n + cs - 1) div cs * cs"
    using assms(2) by (intro mult_le_mono1) simp
  also have "\<dots> \<le> n + cs - 1"
    by simp
  finally have "j * cs + cs \<le> n + cs - 1"
    by (simp add: add.commute)
  with assms(1) show ?thesis by linarith
qed

lemma py_range_slices:
  assumes "0 < cs"
  shows "concat (map (\<lambda>i. take cs (drop i xs)) (py_range (length xs) cs)) = xs"
proof -
  have "concat (map (\<lambda>i. take cs (drop i xs)) (py_range (length xs) cs))
      = take (((length xs + cs - 1) div cs) * cs) xs"
    by (simp add: py_range_def comp_def concat_slices)
  also have "\<dots> = xs"
    using range_covers [OF assms, of "length xs"] by simp
  finally show ?thesis .
qed

lemma py_range_in: "0 < cs \<Longrightarrow> i \<in> set (py_range n cs) \<Longrightarrow> i < n"
  by (auto simp: py_range_def range_below)

lemma py_range_nonempty:
  assumes "0 < cs" and "0 < n"
  shows "py_range n cs \<noteq> []"
proof -
  have "cs \<le> n + cs - 1" using assms by linarith
  then have "0 < (n + cs - 1) div cs" using assms(1) by (simp add: div_greater_zero_iff)
  then show ?thesis by (simp add: py_range_def)
qed

lemma embed_chunks_rowwise:
  assumes "0 < cs"
  shows "concat (embed_chunks (map e) cs xs) = map e xs"
proof -
  have "concat (embed_chunks (map e) cs xs)
      = map e (concat (map (\<lambda>i. take cs (drop i xs)) (py_range (length xs) cs)))"
    by (simp add: embed_chunks_def map_concat comp_def)
  then show ?thesis by (simp add: py_range_slices [OF assms])
qed

lemma embed_chunks_ncols:
  assumes "0 < cs" and "\<forall>t\<in>set xs. length (e t) = d"
    and "m \<in> set (embed_chunks (map e) cs xs)"
  shows "ncols m = d"
proof -
  from assms(3) obtain i where i: "i \<in> set (py_range (length xs) cs)"
    and m: "m = map e (take cs (drop i xs))"
    by (auto simp: embed_chunks_def)
  from i have "i < length xs" by (rule py_range_in [OF assms(1)])
  then obtain y ys where d: "drop i xs = y # ys"
    by (cases "drop i xs") simp_all
  from assms(1) obtain c where c: "cs = Suc c" by (cases cs) simp_all
  have "y \<in> set xs" using d by (metis in_set_dropD list.set_intros(1))
  then show ?thesis using assms(2) by (simp add: m d c ncols_def)
qed

lemma vstack_uniform:
  assumes "ms \<noteq> []" and "\<forall>m\<in>set ms. ncols m = d"
  shows "vstack ms = Inr (concat ms)"
  using assms by (cases ms) (simp_all add: vstack_def list_all_iff)

lemma generate_embeddings_rowwise:
  assumes "texts \<noteq> []" and "0 < cs" and "\<forall>t\<in>set texts. length (e t) = d"
  shows "generate_embeddings (map e) cs texts = Inr (map e texts)"
proof -
  have ne: "embed_chunks (map e) cs texts \<noteq> []"
    using py_range_nonempty [OF assms(2), of "length texts"] assms(1)
    by (simp add: embed_chunks_def)
  have "vstack (embed_chunks (map e) cs texts) = Inr (concat (embed_chunks (map e) cs texts))"
    using ne embed_chunks_ncols [OF assms(2,3)] by (intro vstack_uniform) auto
  then show ?thesis
    using ne assms(2) by (simp add: generate_embeddings_def embed_chunks_rowwise)
qed

lemma build_rowwise:
  assumes "arts \<noteq> []" and "0 < cs" and "\<forall>a\<in>set arts. length (e (art_text a)) = d"
  shows "build (map e) cs arts =
     Inr (\<lparr>idx_d = ncols (map (\<lambda>a. e (art_text a)) arts),
           idx_xb = map (\<lambda>a. e (art_text a)) arts\<rparr>,
          map art_id arts, map (\<lambda>a. e (art_text a)) arts)"
proof -
  have "generate_embeddings (map e) cs (map art_text arts) = Inr (map e (map art_text arts))"
    using assms by (intro generate_embeddings_rowwise [where d = d]) simp_all
  then show ?thesis
    using assms(1) by (simp add: build_def build_index_def IndexFlatL2_def index_add_def comp_def)
qed

section \<open>The sample corpus, evaluated\<close>

lemma sample_build:
  "build (map sample_embed) 2 sample_articles =
     Inr (\<lparr>idx_d = 2, idx_xb = [[0, 0], [1, 0], [5, 5]]\<rparr>,
          [JStr ''a'', JStr ''b'', JStr ''c''], [[0, 0], [1, 0], [5, 5]])"
  by (simp add: build_def generate_embeddings_def embed_chunks_def py_range_def vstack_def
        build_index_def IndexFlatL2_def index_add_def ncols_def sample_articles_def sample_embed_def)

lemma sample_build_1000:
  "build (map sample_embed) 1000 sample_articles =
     Inr (\<lparr>idx_d = 2, idx_xb = [[0, 0], [1, 0], [5, 5]]\<rparr>,
          [JStr ''a'', JStr ''b'', JStr ''c''], [[0, 0], [1, 0], [5, 5]])"
  by (simp add: build_def generate_embeddings_def embed_chunks_def py_range_def vstack_def
        build_index_def IndexFlatL2_def index_add_def ncols_def sample_articles_def sample_embed_def)

lemma sample_range: "py_range (length sample_articles) 2 = [0, 2]"
  by (simp add: py_range_def sample_articles_def upt_rec)

lemma sample_search_2:
  "search_one \<lparr>idx_d = 2, idx_xb = [[0, 0], [1, 0], [5, 5]]\<rparr> [0, 0] 2 = [(0, 0), (1, 1)]"
  by (simp add: search_one_def ntotal_def sq_l2_def upt_rec numeral_eq_Suc)

lemma sample_search_5:
  "search_one \<lparr>idx_d = 2, idx_xb = [[0, 0], [1, 0], [5, 5]]\<rparr> [0, 0] 5
     = [(0, 0), (1, 1), (50, 2), (no_result_distance, - 1), (no_result_distance, - 1)]"
  by (simp add: search_one_def ntotal_def sq_l2_def no_result_def upt_rec numeral_eq_Suc)

lemma empty_dir_load: "load_wikipedia_articles empty_dir_fs loads WIKI_DATA_PATH_FOR_LOADING = []"
  by (simp add: load_wikipedia_articles_def files_to_process_def empty_dir_fs_def)

lemma files_to_process_sorted: "sorted (files_to_process fs data_path)"
  by (simp add: files_to_process_def)

section \<open>The claims\<close>

subsection \<open>The build: alignment, the scenario, chunking, widths, empty input\<close>

text \<open>
  Claim C1. For a corpus that the build processes (at least one article, an encoder that
  maps each text to its vector, all vectors of one width), the id list and the matrix are
  aligned: at every position \<open>i\<close>, the id is that of article \<open>i\<close>, the matrix row is the
  vector of the text of article \<open>i\<close>, and the vector the index stores at \<open>i\<close> is that row;
  the three saved files hold exactly this index, this id list and this matrix.
\<close>

theorem build_alignment:
  assumes "arts \<noteq> []" and "0 < cs" and "\<forall>a\<in>set arts. length (e (art_text a)) = d"
  shows "\<exists>index corpus_ids corpus_embeddings.
     build (map e) cs arts = Inr (index, corpus_ids, corpus_embeddings)
     \<and> length corpus_ids = length arts
     \<and> length corpus_embeddings = length arts
     \<and> ntotal index = length arts
     \<and> (\<forall>i<length arts.
           corpus_ids ! i = art_id (arts ! i)
           \<and> corpus_embeddings ! i = e (art_text (arts ! i))
           \<and> idx_xb index ! i = corpus_embeddings ! i)
     \<and> save_artifacts index corpus_ids corpus_embeddings faiss_index_path = Some (Index_file index)
     \<and> save_artifacts index corpus_ids corpus_embeddings corpus_ids_path = Some (Json_file corpus_ids)
     \<and> save_artifacts index corpus_ids corpus_embeddings corpus_embeddings_path
           = Some (Npy_file corpus_embeddings)"
proof -
  have paths: "faiss_index_path \<noteq> corpus_ids_path" "faiss_index_path \<noteq> corpus_embeddings_path"
    "corpus_ids_path \<noteq> corpus_embeddings_path"
    by (simp_all add: faiss_index_path_def corpus_ids_path_def corpus_embeddings_path_def)
  show ?thesis
    unfolding build_rowwise [OF assms]
    using paths by (simp add: ntotal_def save_artifacts_def)
qed

theorem build_alignment_witness:
  "sample_articles \<noteq> [] \<and> (0::nat) < 2
   \<and> list_all (\<lambda>a. length (sample_embed (art_text a)) = 2) sample_articles
   \<and> (\<exists>index corpus_ids corpus_embeddings.
        build (map sample_embed) 2 sample_articles = Inr (index, corpus_ids, corpus_embeddings)
        \<and> corpus_ids = [JStr ''a'', JStr ''b'', JStr ''c'']
        \<and> corpus_embeddings = [[0, 0], [1, 0], [5, 5]]
        \<and> idx_xb index = [[0, 0], [1, 0], [5, 5]]
        \<and> length corpus_ids = length sample_articles
        \<and> save_artifacts index corpus_ids corpus_embeddings corpus_ids_path = Some (Json_file corpus_ids))"
proof -
  have h1: "sample_articles \<noteq> []" by (simp add: sample_articles_def)
  have h2: "(0::nat) < 2" by simp
  have h3: "\<forall>a\<in>set sample_articles. length (sample_embed (art_text a)) = 2"
    by (simp add: sample_articles_def sample_embed_def)
  from build_alignment [OF h1 h2 h3] obtain index corpus_ids corpus_embeddings where
    b: "build (map sample_embed) 2 sample_articles = Inr (index, corpus_ids, corpus_embeddings)"
    and l: "length corpus_ids = length sample_articles"
    and s: "save_artifacts index corpus_ids corpus_embeddings corpus_ids_path = Some (Json_file corpus_ids)"
    by blast
  from b have "index = \<lparr>idx_d = 2, idx_xb = [[0, 0], [1, 0], [5, 5]]\<rparr>"
    and "corpus_ids = [JStr ''a'', JStr ''b'', JStr ''c'']"
    and "corpus_embeddings = [[0, 0], [1, 0], [5, 5]]"
    unfolding sample_build by auto
  then show ?thesis
    using h1 h2 h3 b l s by (simp add: list_all_iff)
qed

text \<open>
  Claim C2. The corpus of three documents with ids a, b, c and vectors \<open>[0,0]\<close>,
  \<open>[1,0]\<close>, \<open>[5,5]\<close>: the index built from it, searched with the query \<open>[0,0]\<close> and
  \<open>k = 2\<close>, the positions mapped through the id list, shows exactly a at distance 0 and
  then b at distance 1 (squared distances, ascending).
\<close>

theorem scenario_top2:
  "(case build (map sample_embed) 1000 sample_articles of
      Inl e \<Rightarrow> Inl e
    | Inr (index, corpus_ids, corpus_embeddings) \<Rightarrow>
        map_sum id shown (test_retrieval index corpus_ids [0, 0] 2))
   = Inr [(JStr ''a'', 0), (JStr ''b'', 1)]"
  unfolding sample_build_1000
  by (simp add: test_retrieval_def index_search_def sample_search_2 py_index_def upt_rec)

text \<open>
  Claim C3, amended. For every non-empty corpus and every chunk size of at least 1, with
  an encoder that maps each text to its vector (all of one width), the batched embedding
  yields a matrix with one row per text, the row of each text being its vector, and the
  matrix (with it the whole result of the build) is the same for every chunk size. An
  empty corpus never reaches the batching: the script leaves at its guard on
  \<^verbatim>\<open>wikipedia_articles\<close> (lines 117-122), and no matrix is produced.
\<close>

theorem chunking_independent:
  "build (map e) cs [] = Inl Exit_no_articles
   \<and> (arts \<noteq> [] \<and> 1 \<le> cs \<and> 1 \<le> cs' \<and> (\<forall>a\<in>set arts. length (e (art_text a)) = d)
        \<longrightarrow> (\<exists>index corpus_ids m.
               build (map e) cs arts = Inr (index, corpus_ids, m)
               \<and> length m = length (map art_text arts)
               \<and> m = map e (map art_text arts)
               \<and> generate_embeddings (map e) cs (map art_text arts) = Inr m
               \<and> generate_embeddings (map e) cs' (map art_text arts) = Inr m
               \<and> build (map e) cs' arts = Inr (index, corpus_ids, m)))"
proof (intro conjI impI)
  show "build (map e) cs [] = Inl Exit_no_articles"
    by (simp add: build_def)
next
  assume a: "arts \<noteq> [] \<and> 1 \<le> cs \<and> 1 \<le> cs' \<and> (\<forall>a\<in>set arts. length (e (art_text a)) = d)"
  then have ne: "arts \<noteq> []" and w: "\<forall>a\<in>set arts. length (e (art_text a)) = d"
    and cs: "0 < cs" and cs': "0 < cs'"
    by simp_all
  have t: "map art_text arts \<noteq> []" "\<forall>t\<in>set (map art_text arts). length (e t) = d"
    using ne w by simp_all
  have g: "generate_embeddings (map e) cs (map art_text arts) = Inr (map e (map art_text arts))"
    by (rule generate_embeddings_rowwise [OF t(1) cs t(2)])
  have g': "generate_embeddings (map e) cs' (map art_text arts) = Inr (map e (map art_text arts))"
    by (rule generate_embeddings_rowwise [OF t(1) cs' t(2)])
  show "\<exists>index corpus_ids m.
               build (map e) cs arts = Inr (index, corpus_ids, m)
               \<and> length m = length (map art_text arts)
               \<and> m = map e (map art_text arts)
               \<and> generate_embeddings (map e) cs (map art_text arts) = Inr m
               \<and> generate_embeddings (map e) cs' (map art_text arts) = Inr m
               \<and> build (map e) cs' arts = Inr (index, corpus_ids, m)"
    unfolding build_rowwise [OF ne cs w] build_rowwise [OF ne cs' w] g g'
    by (simp add: comp_def)
qed

theorem chunking_independent_witness:
  "build (map sample_embed) 2 [] = Inl Exit_no_articles
   \<and> sample_articles \<noteq> [] \<and> (1::nat) \<le> 2 \<and> (1::nat) \<le> 1000
   \<and> list_all (\<lambda>a. length (sample_embed (art_text a)) = 2) sample_articles
   \<and> generate_embeddings (map sample_embed) 2 (map art_text sample_articles)
        = Inr [[0, 0], [1, 0], [5, 5]]
   \<and> generate_embeddings (map sample_embed) 1000 (map art_text sample_articles)
        = Inr [[0, 0], [1, 0], [5, 5]]
   \<and> build (map sample_embed) 2 sample_articles = build (map sample_embed) 1000 sample_articles"
proof -
  have h: "sample_articles \<noteq> [] \<and> (1::nat) \<le> 2 \<and> (1::nat) \<le> 1000
     \<and> (\<forall>a\<in>set sample_articles. length (sample_embed (art_text a)) = 2)"
    by (simp add: sample_articles_def sample_embed_def)
  have m: "map sample_embed (map art_text sample_articles) = [[0, 0], [1, 0], [5, 5]]"
    by (simp add: sample_articles_def sample_embed_def)
  from chunking_independent [of sample_embed 2 sample_articles 1000 2] h
  have e: "build (map sample_embed) 2 [] = Inl Exit_no_articles"
    and "\<exists>index corpus_ids m.
               build (map sample_embed) 2 sample_articles = Inr (index, corpus_ids, m)
               \<and> length m = length (map art_text sample_articles)
               \<and> m = map sample_embed (map art_text sample_articles)
               \<and> generate_embeddings (map sample_embed) 2 (map art_text sample_articles) = Inr m
               \<and> generate_embeddings (map sample_embed) 1000 (map art_text sample_articles) = Inr m
               \<and> build (map sample_embed) 1000 sample_articles = Inr (index, corpus_ids, m)"
    by blast+
  then have "generate_embeddings (map sample_embed) 2 (map art_text sample_articles)
          = Inr (map sample_embed (map art_text sample_articles))"
    and "generate_embeddings (map sample_embed) 1000 (map art_text sample_articles)
          = Inr (map sample_embed (map art_text sample_articles))"
    and "build (map sample_embed) 2 sample_articles = build (map sample_embed) 1000 sample_articles"
    by auto
  then show ?thesis
    unfolding m using e h by (simp add: list_all_iff)
qed

text \<open>
  The claim as first stated covers the empty sequence of texts, that of an empty corpus;
  there the script yields no matrix (whatever the chunk size): it leaves before the
  batching, at the guard of lines 117-122.
\<close>

theorem empty_corpus_no_matrix_counterexample:
  "build (map sample_embed) 1 [] = Inl Exit_no_articles"
  by (simp add: build_def)

text \<open>
  Claim C4. When the encoder returns rows of one width for one chunk and of another width
  for another chunk, the build stops with the error of the stacking (the
  \<^verbatim>\<open>ValueError\<close> of \<^verbatim>\<open>np.vstack\<close>, which nothing catches: the dimension mismatch), and it
  does so in the embedding step, so that no index is constructed.
\<close>

theorem width_mismatch_aborts:
  assumes "0 < cs"
    and "i \<in> set (py_range (length arts) cs)" and "j \<in> set (py_range (length arts) cs)"
    and "ncols (encode (take cs (drop i (map art_text arts))))
           \<noteq> ncols (encode (take cs (drop j (map art_text arts))))"
  shows "generate_embeddings encode cs (map art_text arts) = Inl ValueError_vstack
       \<and> build encode cs arts = Inl ValueError_vstack"
proof -
  let ?chunk = "\<lambda>i. encode (take cs (drop i (map art_text arts)))"
  let ?all = "embed_chunks encode cs (map art_text arts)"
  have mem: "?chunk i \<in> set ?all" "?chunk j \<in> set ?all"
    using assms(2,3) by (simp_all add: embed_chunks_def)
  then obtain m rest where all: "?all = m # rest"
    by (cases ?all) auto
  have "\<not> list_all (\<lambda>m'. ncols m' = ncols m) rest"
  proof
    assume "list_all (\<lambda>m'. ncols m' = ncols m) rest"
    then have "\<forall>m'\<in>set ?all. ncols m' = ncols m"
      by (simp add: all list_all_iff)
    with mem have "ncols (?chunk i) = ncols (?chunk j)" by simp
    with assms(4) show False by simp
  qed
  then have "vstack ?all = Inl ValueError_vstack"
    by (simp add: vstack_def all)
  then have g: "generate_embeddings encode cs (map art_text arts) = Inl ValueError_vstack"
    using assms(1) all by (simp add: generate_embeddings_def)
  from assms(1,2) have "arts \<noteq> []"
    by (auto dest: py_range_in)
  with g show ?thesis by (simp add: build_def)
qed

theorem width_mismatch_aborts_witness:
  "(0::nat) < 2
   \<and> 0 \<in> set (py_range (length sample_articles) 2) \<and> 2 \<in> set (py_range (length sample_articles) 2)
   \<and> ncols (ragged_encoder (take 2 (drop 0 (map art_text sample_articles)))) = 4
   \<and> ncols (ragged_encoder (take 2 (drop 2 (map art_text sample_articles)))) = 5
   \<and> generate_embeddings ragged_encoder 2 (map art_text sample_articles) = Inl ValueError_vstack
   \<and> build ragged_encoder 2 sample_articles = Inl ValueError_vstack"
proof -
  have h1: "(0::nat) < 2" by simp
  have h2: "0 \<in> set (py_range (length sample_articles) 2)" by (simp add: sample_range)
  have h3: "2 \<in> set (py_range (length sample_articles) 2)" by (simp add: sample_range)
  have w4: "ncols (ragged_encoder (take 2 (drop 0 (map art_text sample_articles)))) = 4"
    by (simp add: ragged_encoder_def sample_articles_def ncols_def)
  have w5: "ncols (ragged_encoder (take 2 (drop 2 (map art_text sample_articles)))) = 5"
    by (simp add: ragged_encoder_def sample_articles_def ncols_def)
  have h4: "ncols (ragged_encoder (take 2 (drop 0 (map art_text sample_articles))))
           \<noteq> ncols (ragged_encoder (take 2 (drop 2 (map art_text sample_articles))))"
    unfolding w4 w5 by simp
  show ?thesis
    using width_mismatch_aborts [OF h1 h2 h3 h4] h2 h3 w4 w5 by simp
qed

text \<open>
  Claim C8, amended. When the corpus is empty, and with it the sequence of texts, neither
  a matrix nor an index is produced: the script leaves at its guard on
  \<^verbatim>\<open>wikipedia_articles\<close> (lines 117-122, "No Wikipedia articles loaded. Cannot proceed
  with embedding and indexing."), before any embedding. Whenever the build does deliver
  an index, the corpus and the matrix are not empty and the index holds at least one
  vector: an empty index is never built.
\<close>

theorem empty_corpus_exits:
  "build encode chunk_size [] = Inl Exit_no_articles
   \<and> (fs_exists fs WIKI_DATA_PATH_FOR_LOADING
        \<and> load_wikipedia_articles fs loads WIKI_DATA_PATH_FOR_LOADING = []
        \<longrightarrow> main fs loads encode query_embedding = Inl Exit_no_articles)
   \<and> (build encode chunk_size arts = Inr (index, corpus_ids, corpus_embeddings)
        \<longrightarrow> arts \<noteq> [] \<and> corpus_embeddings \<noteq> [] \<and> 0 < ntotal index)"
proof (intro conjI impI)
  show "build encode chunk_size [] = Inl Exit_no_articles"
    by (simp add: build_def)
next
  assume "fs_exists fs WIKI_DATA_PATH_FOR_LOADING
        \<and> load_wikipedia_articles fs loads WIKI_DATA_PATH_FOR_LOADING = []"
  then show "main fs loads encode query_embedding = Inl Exit_no_articles"
    by (simp add: main_def build_def)
next
  assume b: "build encode chunk_size arts = Inr (index, corpus_ids, corpus_embeddings)"
  then show "arts \<noteq> []"
    by (auto simp: build_def)
  from b have i: "build_index corpus_embeddings = Inr index"
    by (auto simp: build_def Let_def split: if_splits sum.splits)
  then show "corpus_embeddings \<noteq> []"
    by (auto simp: build_index_def)
  from i show "0 < ntotal index"
    by (auto simp: build_index_def ntotal_def index_add_def IndexFlatL2_def split: if_splits)
qed

theorem empty_corpus_exits_witness:
  "build (map sample_embed) 1000 [] = Inl Exit_no_articles
   \<and> fs_exists empty_dir_fs WIKI_DATA_PATH_FOR_LOADING
   \<and> load_wikipedia_articles empty_dir_fs sample_loads WIKI_DATA_PATH_FOR_LOADING = []
   \<and> main empty_dir_fs sample_loads (map sample_embed) [0, 0] = Inl Exit_no_articles
   \<and> build (map sample_embed) 2 sample_articles =
        Inr (\<lparr>idx_d = 2, idx_xb = [[0, 0], [1, 0], [5, 5]]\<rparr>,
             [JStr ''a'', JStr ''b'', JStr ''c''], [[0, 0], [1, 0], [5, 5]])
   \<and> sample_articles \<noteq> []
   \<and> 0 < ntotal \<lparr>idx_d = 2, idx_xb = [[0, 0], [1, 0], [5, 5]]\<rparr>"
proof -
  have h1: "fs_exists empty_dir_fs WIKI_DATA_PATH_FOR_LOADING
        \<and> load_wikipedia_articles empty_dir_fs sample_loads WIKI_DATA_PATH_FOR_LOADING = []"
    by (simp add: empty_dir_load) (simp add: empty_dir_fs_def)
  note t1 = empty_corpus_exits [of "map sample_embed" 1000 empty_dir_fs sample_loads "[0, 0]"]
  note t2 = empty_corpus_exits [of "map sample_embed" 2 empty_dir_fs sample_loads "[0, 0]"
      sample_articles "\<lparr>idx_d = 2, idx_xb = [[0, 0], [1, 0], [5, 5]]\<rparr>"
      "[JStr ''a'', JStr ''b'', JStr ''c'']" "[[0, 0], [1, 0], [5, 5]]"]
  from t1 h1 have a: "build (map sample_embed) 1000 [] = Inl Exit_no_articles"
    and b: "main empty_dir_fs sample_loads (map sample_embed) [0, 0] = Inl Exit_no_articles"
    by blast+
  from t2 sample_build have c: "sample_articles \<noteq> []"
    and d: "0 < ntotal \<lparr>idx_d = 2, idx_xb = [[0, 0], [1, 0], [5, 5]]\<rparr>"
    by blast+
  show ?thesis
    using a b c d h1 sample_build by simp
qed

text \<open>
  The claim as first stated: an empty matrix from the empty sequence, and from it a valid
  empty index with \<open>ntotal = 0\<close>, rather than aborting. On the data directory that holds
  no data file the loader returns no article, and the script leaves at line 122 with
  neither.
\<close>

theorem empty_directory_aborts_counterexample:
  "load_wikipedia_articles empty_dir_fs sample_loads WIKI_DATA_PATH_FOR_LOADING = []
   \<and> main empty_dir_fs sample_loads (map sample_embed) [0, 0] = Inl Exit_no_articles"
  by (simp add: main_def empty_dir_load build_def) (simp add: empty_dir_fs_def)

subsection \<open>The retrieval test on an index shorter than \<open>k\<close>\<close>

text \<open>
  Claim C7. With three stored vectors and \<open>k = 5\<close>, the search gives three real
  positions and marks the two remaining slots with the label \<open>-1\<close>. The claim has the
  query service leave such slots out. The script's guard \<^verbatim>\<open>idx < len(corpus_ids)\<close>
  lets \<open>-1\<close> through, and \<^verbatim>\<open>corpus_ids[-1]\<close> is the last id: ranks 4 and 5 are printed
  with the id of the last document and the distance of an empty slot.
\<close>

theorem short_index_maps_no_result:
  "snd (index_search \<lparr>idx_d = 2, idx_xb = [[0, 0], [1, 0], [5, 5]]\<rparr> [[0, 0]] 5)
     = [[0, 1, 2, - 1, - 1]]
   \<and> test_retrieval \<lparr>idx_d = 2, idx_xb = [[0, 0], [1, 0], [5, 5]]\<rparr>
        [JStr ''a'', JStr ''b'', JStr ''c''] [0, 0] 5
     = Inr [Rank 1 (JStr ''a'') 0, Rank 2 (JStr ''b'') 1, Rank 3 (JStr ''c'') 50,
            Rank 4 (JStr ''c'') no_result_distance, Rank 5 (JStr ''c'') no_result_distance]"
  by (simp add: test_retrieval_def index_search_def sample_search_5 py_index_def upt_rec)

subsection \<open>The loader: records without a title, counts, surviving documents\<close>

text \<open>
  Claim C5. A line that does not parse is passed over and the valid record after it is
  emitted (first conjunct). The claim gives a parseable record without a title the same
  treatment. In the script the \<^verbatim>\<open>KeyError\<close> of \<^verbatim>\<open>doc['title']\<close> is not caught by the
  handler of the line, which names \<^verbatim>\<open>json.JSONDecodeError\<close> only; it is caught by the
  handler of the file, and the rest of the file is given up: the valid record after the
  record without a title is lost (second conjunct).
\<close>

theorem missing_title_gives_up_file:
  \<open>load_wikipedia_articles (one_file_fs ''wiki.jsonl'' [''{bad json'', ''{"title": "A"}''])
       sample_loads ''wiki.jsonl''
     = [\<lparr>art_id = JStr ''A'', art_title = JStr ''A'', art_text = []\<rparr>]
   \<and> load_wikipedia_articles (one_file_fs ''wiki.jsonl'' [''{"text": ["x"]}'', ''{"title": "A"}''])
       sample_loads ''wiki.jsonl''
     = []\<close>
  by (simp add: load_wikipedia_articles_def files_to_process_def one_file_fs_def process_file_def
        endswith_def sample_loads_def strip_def is_space_def parse_record_def)

text \<open>
  Claim C6. Two shards: the first in sorted order holds a record without a title and then
  a valid record, the second holds one valid record. Two lines are non-blank, valid and
  bear a title; the loader returns one document, since the first shard is given up at its
  first line. (The order of the files does follow the sorted paths:
  \<open>files_to_process_sorted\<close>.)
\<close>

theorem count_misses_lines_after_missing_title:
  \<open>length (load_wikipedia_articles
             (two_shard_fs [''{"text": ["x"]}'', ''{"title": "A"}''] [''{"title": "B"}''])
             sample_loads ''data'') = 1
   \<and> length (filter (title_bearing_line sample_loads)
               ([''{"text": ["x"]}'', ''{"title": "A"}''] @ [''{"title": "B"}''])) = 2\<close>
  by (simp add: load_wikipedia_articles_def files_to_process_def two_shard_fs_def process_file_def
        endswith_def path_join_def decompressed_file_name_def title_bearing_line_def
        sample_loads_def strip_def is_space_def parse_record_def)

text \<open>
  Claim C9, amended. Every document that survives parsing comes from a dictionary with a
  title, and carries that title (which may be empty: nothing in the loader looks at it);
  its id is the record's \<^verbatim>\<open>id\<close> when present, else the title; its text is what iterating
  the record's \<^verbatim>\<open>text\<close> field (the empty list when absent) yields, flattened one level
  with only the strings kept, joined with single spaces.
\<close>

theorem parse_record_survivor:
  assumes "parse_record doc = Inr a"
  shows "\<exists>kvs t items. doc = JObj kvs \<and> map_of kvs ''title'' = Some t \<and> art_title a = t
     \<and> art_id a = (case map_of kvs ''id'' of None \<Rightarrow> t | Some i \<Rightarrow> i)
     \<and> py_iter (case map_of kvs ''text'' of None \<Rightarrow> JArr [] | Some v \<Rightarrow> v) = Inr items
     \<and> art_text a = join '' '' (flatten_one_level items)"
proof (cases doc)
  case (JObj kvs)
  from assms obtain items where
    it: "py_iter (case map_of kvs ''text'' of None \<Rightarrow> JArr [] | Some v \<Rightarrow> v) = Inr items"
    unfolding parse_record_def JObj by (auto split: sum.splits)
  from assms it obtain t where t: "map_of kvs ''title'' = Some t"
    unfolding parse_record_def JObj by (auto simp: Let_def split: sum.splits option.splits)
  from assms it t have
    "a = \<lparr>art_id = (case map_of kvs ''id'' of None \<Rightarrow> t | Some i \<Rightarrow> i), art_title = t,
          art_text = join '' '' (foldl collect_item [] items)\<rparr>"
    unfolding parse_record_def JObj by (simp add: Let_def)
  then show ?thesis using JObj it t by (simp add: foldl_collect_item)
qed (use assms in \<open>simp_all add: parse_record_def\<close>)

theorem parse_record_survivor_witness:
  "parse_record (JObj [(''id'', JInt 12), (''title'', JStr ''Anarchism''),
         (''text'', JArr [JArr [JStr ''Anarchism''],
                          JArr [JStr ''is a'', JInt 3, JStr ''philosophy.''], JStr ''End'', JNull])])
     = Inr \<lparr>art_id = JInt 12, art_title = JStr ''Anarchism'',
            art_text = ''Anarchism is a philosophy. End''\<rparr>
   \<and> (\<exists>kvs t items. JObj [(''id'', JInt 12), (''title'', JStr ''Anarchism''),
         (''text'', JArr [JArr [JStr ''Anarchism''],
                          JArr [JStr ''is a'', JInt 3, JStr ''philosophy.''], JStr ''End'', JNull])]
         = JObj kvs
     \<and> map_of kvs ''title'' = Some t \<and> t = JStr ''Anarchism''
     \<and> JInt 12 = (case map_of kvs ''id'' of None \<Rightarrow> t | Some i \<Rightarrow> i)
     \<and> py_iter (case map_of kvs ''text'' of None \<Rightarrow> JArr [] | Some v \<Rightarrow> v) = Inr items
     \<and> ''Anarchism is a philosophy. End'' = join '' '' (flatten_one_level items))"
proof -
  have h: "parse_record (JObj [(''id'', JInt 12), (''title'', JStr ''Anarchism''),
         (''text'', JArr [JArr [JStr ''Anarchism''],
                          JArr [JStr ''is a'', JInt 3, JStr ''philosophy.''], JStr ''End'', JNull])])
     = Inr \<lparr>art_id = JInt 12, art_title = JStr ''Anarchism'',
            art_text = ''Anarchism is a philosophy. End''\<rparr>"
    by (simp add: parse_record_def)
  show ?thesis using h parse_record_survivor [OF h] by simp
qed

text \<open>
  The claim as first stated has the title non-empty; a record whose title is the empty
  string survives.
\<close>

theorem empty_title_survives_counterexample:
  "parse_record (JObj [(''title'', JStr [])])
     = Inr \<lparr>art_id = JStr [], art_title = JStr [], art_text = []\<rparr>"
  by (simp add: parse_record_def)

text \<open>
  Claim C10, amended. For every parseable record that bears a title and whose \<^verbatim>\<open>text\<close>
  field is a string \<open>s\<close>, the loader does not reject the record: it iterates \<open>s\<close>
  character by character, appends a document whose text is the characters of \<open>s\<close> joined
  by single spaces, and goes on with the next line.
\<close>

theorem text_string_is_iterated:
  assumes "map_of kvs ''text'' = Some (JStr s)" and "map_of kvs ''title'' = Some t"
    and "strip l \<noteq> []" and "loads (strip l) = Inr (JObj kvs)"
  shows "parse_record (JObj kvs)
           = Inr \<lparr>art_id = (case map_of kvs ''id'' of None \<Rightarrow> t | Some i \<Rightarrow> i), art_title = t,
                  art_text = join '' '' (map (\<lambda>c. [c]) s)\<rparr>
     \<and> read_lines loads articles (l # ls)
           = read_lines loads
               (articles @ [\<lparr>art_id = (case map_of kvs ''id'' of None \<Rightarrow> t | Some i \<Rightarrow> i),
                              art_title = t, art_text = join '' '' (map (\<lambda>c. [c]) s)\<rparr>]) ls"
proof -
  have p: "parse_record (JObj kvs)
           = Inr \<lparr>art_id = (case map_of kvs ''id'' of None \<Rightarrow> t | Some i \<Rightarrow> i), art_title = t,
                  art_text = join '' '' (map (\<lambda>c. [c]) s)\<rparr>"
    using assms(1,2) by (simp add: parse_record_def foldl_collect_chars)
  show ?thesis using p assms(3,4) by simp
qed

theorem text_string_is_iterated_witness:
  "map_of [(''title'', JStr ''B''), (''text'', JStr ''abc'')] ''text'' = Some (JStr ''abc'')
   \<and> map_of [(''title'', JStr ''B''), (''text'', JStr ''abc'')] ''title'' = Some (JStr ''B'')
   \<and> strip '' rec '' \<noteq> []
   \<and> parse_record (JObj [(''title'', JStr ''B''), (''text'', JStr ''abc'')])
       = Inr \<lparr>art_id = JStr ''B'', art_title = JStr ''B'', art_text = ''a b c''\<rparr>
   \<and> read_lines (\<lambda>x. Inr (JObj [(''title'', JStr ''B''), (''text'', JStr ''abc'')])) [] ['' rec '']
       = ([\<lparr>art_id = JStr ''B'', art_title = JStr ''B'', art_text = ''a b c''\<rparr>], None)"
proof -
  have h1: "map_of [(''title'', JStr ''B''), (''text'', JStr ''abc'')] ''text'' = Some (JStr ''abc'')"
    by simp
  have h2: "map_of [(''title'', JStr ''B''), (''text'', JStr ''abc'')] ''title'' = Some (JStr ''B'')"
    by simp
  have h3: "strip '' rec '' \<noteq> []"
    by (simp add: strip_def is_space_def)
  have h4: "(\<lambda>x. Inr (JObj [(''title'', JStr ''B''), (''text'', JStr ''abc'')])) (strip '' rec '')
              = Inr (JObj [(''title'', JStr ''B''), (''text'', JStr ''abc'')])"
    by simp
  show ?thesis
    using text_string_is_iterated [OF h1 h2 h3 h4, of "[]" "[]"] h3 by simp
qed

text \<open>
  The claim as first stated covers records without a title; such a record is not turned
  into a document, whatever its text.
\<close>

theorem text_string_without_title_counterexample:
  "parse_record (JObj [(''text'', JStr ''ab'')]) = Inl KeyError"
  by (simp add: parse_record_def)

end
